theory Spec2Isabelle
  imports Main "HOL-Library.AList" "HOL-Library.Sublist" "HOL-Library.Product_Lexorder"
begin

section \<open>The authenticated session of the Geti SDK\<close>

text \<open>
  A shallow embedding of \<^verbatim>\<open>src/geti_sdk/http_session/geti_session.py\<close>
  (class \<^verbatim>\<open>GetiSession\<close>). Every method becomes a function that takes the
  session and the world around it and returns a result together with the new session and
  world. An exception is a value \<open>Inl e\<close>; a normal return is \<open>Inr v\<close>.
\<close>

subsection \<open>Python values\<close>

text \<open>
  Decoded JSON documents double as the Python values the session handles: \<open>JNull\<close>
  is Python's \<^verbatim>\<open>None\<close>, so \<^verbatim>\<open>d.get(k, None)\<close> yields \<open>JNull\<close> both for a
  missing key and for a null entry. Numbers are integers here.
\<close>

datatype json =
    JNull
  | JBool bool
  | JNum int
  | JStr string
  | JArr "json list"
  | JObj "(string \<times> json) list"

type_synonym bytes = "nat list"

text \<open>
  The \<^verbatim>\<open>data\<close> argument of \<^verbatim>\<open>get_rest_response\<close>: nothing, a JSON document,
  raw bytes, a form, or a dictionary from part names to file objects. A file object is
  its address and its bytes; its read offset changes as it is read and rewound, and lives
  in the world's store under the address, since the caller and the session share the
  object.
\<close>

datatype payload =
    PNone
  | PJson json
  | PBytes bytes
  | PForm "(string \<times> string) list"
  | PFiles "(string \<times> nat \<times> bytes) list"

datatype error =
    ValueError string
  | SSLError string
  | RequestsConnectionError string
  | RequestException string
  | ConnectionError "string list"
  | JSONDecodeError
  | AttributeError
  | TypeError
  | KeyError string
  | IndexError
  | RecursionError
  | GetiRequestException string string nat "(string \<times> payload) list" json

text \<open>
  \<open>SSLError\<close>, \<open>RequestsConnectionError\<close> and \<open>RequestException\<close> are the classes of
  \<^verbatim>\<open>requests.exceptions\<close> (the first a subclass of the second, both subclasses of the
  third); \<open>ConnectionError\<close> is the built-in class, carrying its \<^verbatim>\<open>args\<close>.
  \<open>GetiRequestException method url status_code request_data response_data\<close> is the
  SDK's own failure (\<^verbatim>\<open>http_session/exception.py\<close>).
\<close>

fun is_RequestException :: "error \<Rightarrow> bool" where
  "is_RequestException (SSLError _) = True"
| "is_RequestException (RequestsConnectionError _) = True"
| "is_RequestException (RequestException _) = True"
| "is_RequestException _ = False"

fun is_requests_ConnectionError :: "error \<Rightarrow> bool" where
  "is_requests_ConnectionError (SSLError _) = True"
| "is_requests_ConnectionError (RequestsConnectionError _) = True"
| "is_requests_ConnectionError _ = False"

subsection \<open>Responses and requests\<close>

text \<open>
  What the session reads of a \<^verbatim>\<open>requests.Response\<close>. \<open>json_body = None\<close> means
  that \<^verbatim>\<open>response.json()\<close> raises a decode error; \<open>next_url = None\<close> means that
  \<^verbatim>\<open>response.next\<close> is \<^verbatim>\<open>None\<close>; \<open>history\<close> holds the cookies of each response in
  \<^verbatim>\<open>response.history\<close>, oldest first.
\<close>

record response =
  status_code :: nat
  resp_content_type :: "string option"
  json_body :: "json option"
  resp_url :: string
  next_url :: "string option"
  resp_cookies :: "(string \<times> string) list"
  history :: "(string \<times> string) list list"
  resp_method :: string
  resp_content :: string
  reason :: string

text \<open>
  The keyword arguments of one transport call (\<^verbatim>\<open>self.request\<close>, \<^verbatim>\<open>self.get\<close>,
  \<^verbatim>\<open>self.post\<close>); an absent key is \<open>None\<close>.
\<close>

record request_params =
  rp_method :: string
  rp_url :: string
  rp_json :: "payload option"
  rp_files :: "payload option"
  rp_data :: "payload option"
  rp_stream :: "bool option"
  rp_cookies :: "(string \<times> json) list option"
  rp_headers :: "(string \<times> json) list option"
  rp_allow_redirects :: "bool option"

datatype log_entry =
    Info string
  | Warning string
  | Debug string
  | DebugExc error string

text \<open>
  What the session does to the outside, in order: a request records the arguments, the
  session headers in force and, for each file part, its offset at dispatch and the bytes
  read from there.
\<close>

datatype event =
    Request request_params "(string \<times> json) list" "(string \<times> nat \<times> bytes) list"
  | Sleep nat
  | Close

datatype outcome = Returns response | Raises error

type_synonym version = "nat \<times> nat \<times> nat"

text \<open>
  The world around the session. \<open>net\<close> is the remote side and the transport: given the
  events so far, the last being the request just sent, it answers or raises. \<open>store\<close>
  holds the read offset of each file object. \<open>py_str\<close> is Python's \<^verbatim>\<open>str\<close> on values, used by
  the f-strings. \<open>close_result\<close> is what closing the adapters raises, if anything.
  \<open>recursion_limit\<close> is the interpreter's bound on the depth of recursive calls.

  \<^verbatim>\<open>geti_sdk/platform_versions.py\<close> is not among the sources:
  \<open>GetiVersion\<close> (the parser of a version string), \<open>GETI_18_VERSION\<close> and
  \<open>GETI_114_VERSION\<close> are parameters. Modelled from the spec: a version is an ordered
  triple (major, minor, patch) with the lexicographic total order.

  \<^verbatim>\<open>http_session/exception.py\<close> is not among the sources either: whether
  \<open>GetiRequestException\<close> derives from \<open>RequestException\<close> of \<^verbatim>\<open>requests\<close> is the
  parameter \<open>geti_exception_is_request_exception\<close>.
\<close>

record world =
  net :: "event list \<Rightarrow> outcome"
  trace :: "event list"
  logs :: "log_entry list"
  store :: "nat \<Rightarrow> nat"
  py_str :: "json \<Rightarrow> string"
  close_result :: "error option"
  recursion_limit :: nat
  GetiVersion :: "json \<Rightarrow> error + version"
  GETI_18_VERSION :: version
  GETI_114_VERSION :: version
  geti_exception_is_request_exception :: bool

text \<open>
  \<^verbatim>\<open>http_session/server_config.py\<close> is not among the sources. The session reads the
  attributes below; \<open>api_pattern\<close> and \<open>base_url\<close> are properties there and are taken
  as given. A credential configuration has a user name and a password, a token
  configuration has a token.
\<close>

datatype auth_config = Credentials string string | Token string

record config =
  host :: string
  api_pattern :: string
  cfg_base_url :: string
  auth :: auth_config

fun username :: "auth_config \<Rightarrow> error + string" where
  "username (Credentials u p) = Inr u"
| "username (Token t) = Inl AttributeError"

fun password :: "auth_config \<Rightarrow> error + string" where
  "password (Credentials u p) = Inr p"
| "password (Token t) = Inl AttributeError"

fun token :: "auth_config \<Rightarrow> error + string" where
  "token (Credentials u p) = Inl AttributeError"
| "token (Token t) = Inr t"

text \<open>
  The session object. \<open>headers\<close> and \<open>cookies\<close> are the header dictionary and the cookie
  jar of \<^verbatim>\<open>requests.Session\<close>; the \<open>priv_\<close> fields are the attributes whose Python
  names start with an underscore.
\<close>

record session =
  headers :: "(string \<times> json) list"
  cookies :: "(string \<times> string) list"
  priv_cookies :: "(string \<times> json) list"
  logged_in :: bool
  priv_auth_service :: "string option"
  use_token :: bool
  cfg :: config
  priv_product_info :: "(string \<times> json) list"
  priv_organization_id :: json
  closed :: bool

type_synonym 'a result = "(error + 'a) \<times> session \<times> world"

subsection \<open>Constants\<close>

definition CSRF_COOKIE_NAME :: string where
  "CSRF_COOKIE_NAME = ''_oauth2_proxy_csrf''"

definition PROXY_COOKIE_NAME :: string where
  "PROXY_COOKIE_NAME = ''_oauth2_proxy''"

definition GETI_COOKIE_NAME :: string where
  "GETI_COOKIE_NAME = ''geti-cookie''"

definition INITIAL_HEADERS :: "(string \<times> json) list" where
  "INITIAL_HEADERS = [(''Upgrade-Insecure-Requests'', JStr ''1'')]"

definition SUCCESS_STATUS_CODES :: "nat list" where
  "SUCCESS_STATUS_CODES = [200, 201, 202]"

definition AUTHENTICATION_DEX_OLD :: string where
  "AUTHENTICATION_DEX_OLD = ''dex-old''"

definition AUTHENTICATION_DEX_NEW :: string where
  "AUTHENTICATION_DEX_NEW = ''dex-new''"

definition AUTHENTICATION_CIDAAS :: string where
  "AUTHENTICATION_CIDAAS = ''cidaas''"

subsection \<open>Python helpers\<close>

text \<open>\<^verbatim>\<open>d.get(k, None)\<close> on a dictionary.\<close>

definition dict_get :: "(string \<times> json) list \<Rightarrow> string \<Rightarrow> json" where
  "dict_get d k = (case map_of d k of None \<Rightarrow> JNull | Some v \<Rightarrow> v)"

text \<open>\<^verbatim>\<open>jar.get(k, None)\<close> on the cookies of a response.\<close>

definition cookie_get :: "(string \<times> string) list \<Rightarrow> string \<Rightarrow> json" where
  "cookie_get d k = (case map_of d k of None \<Rightarrow> JNull | Some v \<Rightarrow> JStr v)"

text \<open>\<^verbatim>\<open>d.update(e)\<close>: the entries of \<open>e\<close> are written into \<open>d\<close> in order.\<close>

definition dict_update :: "('k \<times> 'v) list \<Rightarrow> ('k \<times> 'v) list \<Rightarrow> ('k \<times> 'v) list" where
  "dict_update d e = fold (\<lambda>(k, v) acc. AList.update k v acc) e d"

text \<open>\<^verbatim>\<open>v.get(k, None)\<close> on an arbitrary value: only a dictionary has \<^verbatim>\<open>get\<close>.\<close>

fun json_get :: "json \<Rightarrow> string \<Rightarrow> error + json" where
  "json_get (JObj d) k = Inr (dict_get d k)"
| "json_get _ k = Inl AttributeError"

text \<open>\<^verbatim>\<open>p in s\<close> on strings.\<close>

fun str_in :: "string \<Rightarrow> string \<Rightarrow> bool" where
  "str_in p [] = (p = [])"
| "str_in p (c # cs) = (prefix p (c # cs) \<or> str_in p cs)"

text \<open>
  \<^verbatim>\<open>s.split(sep)\<close> for a non-empty separator; \<open>acc\<close> collects the piece being read.
\<close>

function split_from :: "string \<Rightarrow> string \<Rightarrow> string \<Rightarrow> string list" where
  "split_from sep acc s =
     (if sep = [] \<or> s = [] then [acc]
      else if prefix sep s then acc # split_from sep [] (drop (length sep) s)
      else split_from sep (acc @ [hd s]) (tl s))"
  by pat_completeness auto
termination
  by (relation "measure (\<lambda>(sep, acc, s). length s)") (auto simp: neq_Nil_conv)

definition py_split :: "string \<Rightarrow> string \<Rightarrow> string list" where
  "py_split s sep = split_from sep [] s"

text \<open>\<^verbatim>\<open>xs[i]\<close> for a non-negative index.\<close>

definition py_index :: "'a list \<Rightarrow> nat \<Rightarrow> error + 'a" where
  "py_index xs i = (if i < length xs then Inr (xs ! i) else Inl IndexError)"


subsection \<open>The transport\<close>

text \<open>
  The body of a multipart request is read from the file objects when the request is sent:
  each part from its current offset to its end, which leaves the offset at the end.
\<close>

fun read_parts ::
  "(string \<times> nat \<times> bytes) list \<Rightarrow> (nat \<Rightarrow> nat) \<Rightarrow>
   (string \<times> nat \<times> bytes) list \<times> (nat \<Rightarrow> nat)" where
  "read_parts [] st = ([], st)"
| "read_parts ((name, a, bs) # fs) st =
     (let part = (name, st a, drop (st a) bs);
          st1 = st(a := max (st a) (length bs));
          (rest, st2) = read_parts fs st1
      in (part # rest, st2))"

definition send_parts ::
  "payload option \<Rightarrow> (nat \<Rightarrow> nat) \<Rightarrow>
   (string \<times> nat \<times> bytes) list \<times> (nat \<Rightarrow> nat)" where
  "send_parts files st =
     (case files of Some (PFiles fs) \<Rightarrow> read_parts fs st | _ \<Rightarrow> ([], st))"

text \<open>
  \<^verbatim>\<open>self.request(**params)\<close> of \<^verbatim>\<open>requests.Session\<close>: the request goes out with the
  session headers merged in, the answer's cookies (and those of the redirects followed)
  land in the session's jar. The proxy settings, passed unchanged to every call, are left
  out.
\<close>

definition request :: "request_params \<Rightarrow> session \<Rightarrow> world \<Rightarrow> response result" where
  "request rp s w =
     (let (parts, st) = send_parts (rp_files rp) (store w);
          tr = trace w @ [Request rp (headers s) parts];
          w1 = w\<lparr>trace := tr, store := st\<rparr>
      in case net w tr of
           Raises e \<Rightarrow> (Inl e, s, w1)
         | Returns r \<Rightarrow>
             (Inr r,
              s\<lparr>cookies := dict_update (cookies s) (concat (history r) @ resp_cookies r)\<rparr>,
              w1))"

definition params :: "string \<Rightarrow> string \<Rightarrow> request_params" where
  "params m u =
     \<lparr>rp_method = m, rp_url = u, rp_json = None, rp_files = None, rp_data = None,
      rp_stream = None, rp_cookies = None, rp_headers = None, rp_allow_redirects = None\<rparr>"

text \<open>
  \<^verbatim>\<open>self.get\<close> and \<^verbatim>\<open>self.post\<close> with a URL that may be \<^verbatim>\<open>None\<close>: the transport
  rejects a URL without a scheme (\<^verbatim>\<open>MissingSchema\<close>, a \<open>RequestException\<close>) before
  anything is sent.
\<close>

definition request_to ::
  "string option \<Rightarrow> (string \<Rightarrow> request_params) \<Rightarrow> session \<Rightarrow> world \<Rightarrow> response result" where
  "request_to u mk s w =
     (case u of
        None \<Rightarrow> (Inl (RequestException ''MissingSchema''), s, w)
      | Some v \<Rightarrow> request (mk v) s w)"

definition log :: "log_entry \<Rightarrow> world \<Rightarrow> world" where
  "log e w = w\<lparr>logs := logs w @ [e]\<rparr>"


subsection \<open>Negotiating the authentication backend\<close>

text \<open>\<^verbatim>\<open>v.get(k, default)\<close> on an arbitrary value.\<close>

fun json_get_default :: "json \<Rightarrow> string \<Rightarrow> json \<Rightarrow> error + json" where
  "json_get_default (JObj d) k dflt =
     Inr (case map_of d k of None \<Rightarrow> dflt | Some v \<Rightarrow> v)"
| "json_get_default _ k dflt = Inl AttributeError"

text \<open>The property \<^verbatim>\<open>authentication_service\<close> (source lines 587-610).\<close>

definition authentication_service :: "session \<Rightarrow> world \<Rightarrow> string result" where
  "authentication_service s w =
     (case priv_auth_service s of
        Some a \<Rightarrow> (Inr a, s, w)
      | None \<Rightarrow>
          (case request (params ''GET'' (host (cfg s) @ ''/deployment-config.json'')) s w of
             (Inl e, s1, w1) \<Rightarrow> (Inl e, s1, w1)
           | (Inr deployment_config_response, s1, w1) \<Rightarrow>
               (case json_body deployment_config_response of
                  None \<Rightarrow>
                    (Inr AUTHENTICATION_DEX_OLD,
                     s1\<lparr>priv_auth_service := Some AUTHENTICATION_DEX_OLD\<rparr>, w1)
                | Some doc \<Rightarrow>
                    (case json_get_default doc ''auth'' (JObj [(''type'', JStr ''dex'')]) of
                       Inl e \<Rightarrow> (Inl e, s1, w1)
                     | Inr authentication_info \<Rightarrow>
                         (case json_get authentication_info ''type'' of
                            Inl e \<Rightarrow> (Inl e, s1, w1)
                          | Inr t \<Rightarrow>
                              if t = JStr ''dex''
                              then (Inr AUTHENTICATION_DEX_NEW,
                                    s1\<lparr>priv_auth_service := Some AUTHENTICATION_DEX_NEW\<rparr>, w1)
                              else (Inr AUTHENTICATION_CIDAAS,
                                    s1\<lparr>priv_auth_service := Some AUTHENTICATION_CIDAAS\<rparr>, w1))))))"

subsection \<open>The login flow\<close>

text \<open>
  \<^verbatim>\<open>_follow_login_redirects\<close> (source lines 155-182) calls itself once per redirect;
  the first argument counts the calls the interpreter still allows.
\<close>

fun follow_login_redirects ::
  "nat \<Rightarrow> response \<Rightarrow> bool \<Rightarrow> session \<Rightarrow> world \<Rightarrow> string option result" where
  "follow_login_redirects 0 response use_legacy_dex s w = (Inl RecursionError, s, w)"
| "follow_login_redirects (Suc depth) response use_legacy_dex s w =
     (if use_legacy_dex then
        if status_code response \<in> set [302, 303] then
          (case next_url response of
             None \<Rightarrow> (Inl AttributeError, s, w)
           | Some redirect_url \<Rightarrow>
               (case request ((params ''GET'' redirect_url)\<lparr>rp_allow_redirects := Some False\<rparr>) s w of
                  (Inl e, s1, w1) \<Rightarrow> (Inl e, s1, w1)
                | (Inr redirected, s1, w1) \<Rightarrow>
                    (let proxy_csrf = cookie_get (resp_cookies redirected) CSRF_COOKIE_NAME;
                         proxy_csrf =
                           (if proxy_csrf = JNull
                            then cookie_get (resp_cookies response) CSRF_COOKIE_NAME
                            else proxy_csrf);
                         s2 = (if proxy_csrf \<noteq> JNull
                               then s1\<lparr>priv_cookies :=
                                      AList.update CSRF_COOKIE_NAME proxy_csrf (priv_cookies s1)\<rparr>
                               else s1)
                     in follow_login_redirects depth redirected use_legacy_dex s2 w1)))
        else (Inr (Some (resp_url response)), s, w)
      else
        if status_code response \<in> set [302, 303] then
          (case next_url response of
             None \<Rightarrow> (Inl AttributeError, s, w)
           | Some u \<Rightarrow> (Inr (Some u), s, w))
        else (Inr None, s, w))"

definition login_query :: string where
  "login_query =
     ''client_id=web_ui'' @ ''&redirect_uri=/callback'' @ ''&code_challenge_method=S256'' @
     ''&response_type=code'' @ ''&response_mode=query'' @
     ''&scope=openid+profile+groups+email+offline_access''"

text \<open>\<^verbatim>\<open>_get_initial_login_url\<close> (source lines 184-208).\<close>

definition get_initial_login_url :: "bool \<Rightarrow> session \<Rightarrow> world \<Rightarrow> string option result" where
  "get_initial_login_url use_legacy_dex s w =
     (let url = (if use_legacy_dex then host (cfg s)
                 else host (cfg s) @ ''/dex/auth/regular_users?'' @ login_query)
      in case request ((params ''GET'' url)\<lparr>rp_allow_redirects := Some False\<rparr>) s w of
           (Inl e, s1, w1) \<Rightarrow> (Inl e, s1, w1)
         | (Inr response, s1, w1) \<Rightarrow>
             follow_login_redirects (recursion_limit w1) response use_legacy_dex s1 w1)"

definition credentials_failed :: string where
  "credentials_failed =
     ''The cluster responded to the request, but authentication failed. '' @
     ''Please verify that you have provided correct credentials.''"

text \<open>\<^verbatim>\<open>_handle_legacy_dex_response\<close> (source lines 632-654).\<close>

definition handle_legacy_dex_response :: "response \<Rightarrow> session \<Rightarrow> world \<Rightarrow> unit result" where
  "handle_legacy_dex_response response s w =
     (if history response = [] then (Inl (ValueError credentials_failed), s, w)
      else
        (let previous_response = last (history response);
             proxy_cookie = cookie_get previous_response PROXY_COOKIE_NAME
         in if proxy_cookie \<noteq> JNull
            then (Inr (),
                  s\<lparr>priv_cookies :=
                      dict_update (priv_cookies s) [(PROXY_COOKIE_NAME, proxy_cookie)]\<rparr>, w)
            else (Inr (), s,
                  log (Warning (''Authentication appears to have failed! No valid oauth cookie '' @
                         ''obtained. Invalid response received from server. Status code: '' @
                         py_str w (JNum (int (status_code response))))) w)))"

text \<open>\<^verbatim>\<open>_handle_dex_response\<close> (source lines 656-697).\<close>

definition handle_dex_response :: "response \<Rightarrow> session \<Rightarrow> world \<Rightarrow> unit result" where
  "handle_dex_response response s w =
     (case (if status_code response = 200 then
              (case py_index (py_split (resp_url response) ''code='') 1 of
                 Inl e \<Rightarrow> Inl e
               | Inr rest \<Rightarrow> py_index (py_split rest ''&'') 0)
            else if status_code response = 401 then Inl (ValueError credentials_failed)
            else Inl (GetiRequestException (resp_method response) (resp_url response)
                        (status_code response) []
                        (JObj [(''message'', JStr (resp_content response)),
                               (''error_code'', JStr (reason response))]))) of
        Inl e \<Rightarrow> (Inl e, s, w)
      | Inr code \<Rightarrow>
          (let data = PForm [(''grant_type'', ''authorization_code''),
                             (''redirect_uri'', ''/callback''),
                             (''code'', code),
                             (''client_id'', ''web_ui'')]
           in case request ((params ''POST'' (host (cfg s) @ ''/dex/token''))
                              \<lparr>rp_data := Some data, rp_allow_redirects := Some True\<rparr>) s w of
                (Inl e, s1, w1) \<Rightarrow> (Inl e, s1, w1)
              | (Inr login_response, s1, w1) \<Rightarrow>
                  (case json_body login_response of
                     None \<Rightarrow> (Inl JSONDecodeError, s1, w1)
                   | Some doc \<Rightarrow>
                       (case json_get doc ''access_token'' of
                          Inl e \<Rightarrow> (Inl e, s1, w1)
                        | Inr tok \<Rightarrow>
                            (Inr (),
                             s1\<lparr>priv_cookies :=
                                  dict_update (priv_cookies s1) [(GETI_COOKIE_NAME, tok)]\<rparr>,
                             w1)))))"

text \<open>
  The handlers of \<^verbatim>\<open>authenticate\<close> around the first request of the login (source lines
  232-248): a certificate failure is raised again with the host in its message, any other
  connection failure becomes a \<open>ValueError\<close>.
\<close>

definition login_connection_error :: "error \<Rightarrow> session \<Rightarrow> error" where
  "login_connection_error e s =
     (case e of
        SSLError msg \<Rightarrow>
          SSLError (''Connection to Intel Geti server at '' @ host (cfg s) @ '' failed, '' @
                    ''the server address can be resolved but the SSL certificate could not '' @
                    ''be verified. Full error description: '' @ msg)
      | RequestsConnectionError msg \<Rightarrow>
          (case password (auth (cfg s)) of
             Inl a \<Rightarrow> a
           | Inr p \<Rightarrow>
               if str_in ''dummy'' p
               then ValueError (''Connection to the Intel Geti server failed, please make sure to '' @
                                ''update the user login information for the Intel Geti instance.'')
               else
                 (case username (auth (cfg s)) of
                    Inl a \<Rightarrow> a
                  | Inr u \<Rightarrow>
                      if str_in ''dummy'' u
                      then ValueError (''Connection to the Intel Geti server failed, please make sure to '' @
                                       ''update the user login information for the Intel Geti instance.'')
                      else ValueError (''Connection to the Intel Geti server at host '' @ host (cfg s) @
                                       '' failed, please provide a valid cluster hostname or ip address as'' @
                                       '' well as valid login details.'')))
      | _ \<Rightarrow> e)"

text \<open>
  \<^verbatim>\<open>authenticate\<close> (source lines 210-273). The property \<open>authentication_service\<close> is
  read once here: the source reads it again for the second comparison and for the
  message, and those reads find the value the first one cached.
\<close>

definition authenticate :: "bool \<Rightarrow> session \<Rightarrow> world \<Rightarrow> unit result" where
  "authenticate verbose s w =
     (if logged_in s
      then (Inr (), s, log (Info ''Already logged in, authentication is skipped'') w)
      else
        (case authentication_service s w of
           (Inl e, s1, w1) \<Rightarrow> (Inl e, s1, w1)
         | (Inr service, s1, w1) \<Rightarrow>
             if service \<noteq> AUTHENTICATION_DEX_OLD \<and> service \<noteq> AUTHENTICATION_DEX_NEW
             then (Inl (ValueError (''Unable to start the authentication process: The Geti server '' @
                          ''requires an authentication service that this version of the '' @
                          ''geti-sdk does not support: '' @ service)), s1, w1)
             else
               (let use_legacy_dex = (service = AUTHENTICATION_DEX_OLD);
                    s2 = s1\<lparr>cookies := []\<rparr>
                in case get_initial_login_url use_legacy_dex s2 w1 of
                     (Inl e, s3, w3) \<Rightarrow> (Inl (login_connection_error e s3), s3, w3)
                   | (Inr login_path, s3, w3) \<Rightarrow>
                       (let s4 = s3\<lparr>headers :=
                                   [(''Content-Type'', JStr ''application/x-www-form-urlencoded'')]\<rparr>;
                            w4 = (if verbose
                                  then log (Info (''Authenticating on host '' @ host (cfg s4) @ ''...'')) w3
                                  else w3);
                            csrf = dict_get (priv_cookies s4) CSRF_COOKIE_NAME;
                            login_cookies =
                              (if use_legacy_dex then [(CSRF_COOKIE_NAME, csrf)] else []);
                            login_headers =
                              (if use_legacy_dex then [(''Cookie'', csrf)] else headers s4)
                        in case username (auth (cfg s4)) of
                             Inl e \<Rightarrow> (Inl e, s4, w4)
                           | Inr u \<Rightarrow>
                         (case password (auth (cfg s4)) of
                             Inl e \<Rightarrow> (Inl e, s4, w4)
                           | Inr p \<Rightarrow>
                         (case request_to login_path
                                 (\<lambda>url. (params ''POST'' url)
                                    \<lparr>rp_data := Some (PForm [(''login'', u), (''password'', p)]),
                                     rp_cookies := Some login_cookies,
                                     rp_headers := Some login_headers,
                                     rp_allow_redirects := Some True\<rparr>) s4 w4 of
                             (Inl e, s5, w5) \<Rightarrow> (Inl e, s5, w5)
                           | (Inr response, s5, w5) \<Rightarrow>
                               (case (if use_legacy_dex
                                      then handle_legacy_dex_response response s5 w5
                                      else handle_dex_response response s5 w5) of
                                  (Inl e, s6, w6) \<Rightarrow> (Inl e, s6, w6)
                                | (Inr _, s6, w6) \<Rightarrow>
                                    (Inr (), s6\<lparr>logged_in := True\<rparr>,
                                     if verbose
                                     then log (Info ''Authentication successful. Cookie received.'') w6
                                     else w6))))))))"



subsection \<open>The request dispatcher and the error recovery\<close>

text \<open>
  \<^verbatim>\<open>get_rest_response\<close> returns the decoded body of a JSON answer and the response
  itself otherwise.
\<close>

datatype rest_result = RJson json | RResponse response

fun rest_get :: "rest_result \<Rightarrow> string \<Rightarrow> error + json" where
  "rest_get (RJson j) k = json_get j k"
| "rest_get (RResponse r) k = Inl AttributeError"

text \<open>\<^verbatim>\<open>_update_headers_for_content_type\<close> (source lines 559-574).\<close>

definition update_headers_for_content_type :: "string \<Rightarrow> session \<Rightarrow> session" where
  "update_headers_for_content_type content_type s =
     (if content_type = ''json''
      then s\<lparr>headers := AList.update ''Content-Type'' (JStr ''application/json'') (headers s)\<rparr>
      else if content_type = ''jpeg''
      then s\<lparr>headers := AList.update ''Content-Type'' (JStr ''image/jpeg'') (headers s)\<rparr>
      else if content_type = ''multipart''
      then s\<lparr>headers := AList.delete ''Content-Type'' (headers s)\<rparr>
      else if content_type = ''''
      then s\<lparr>headers := AList.delete ''Content-Type'' (headers s)\<rparr>
      else if content_type = ''zip''
      then s\<lparr>headers := AList.update ''Content-Type'' (JStr ''application/zip'') (headers s)\<rparr>
      else s)"

text \<open>The property \<^verbatim>\<open>version\<close> (source lines 109-120).\<close>

definition version :: "session \<Rightarrow> world \<Rightarrow> error + version" where
  "version s w =
     (if map_of (priv_product_info s) ''build-version'' \<noteq> None
      then GetiVersion w (dict_get (priv_product_info s) ''build-version'')
      else GetiVersion w (dict_get (priv_product_info s) ''product-version''))"

text \<open>
  The loop of source lines 538-539: \<^verbatim>\<open>request_params["files"]\<close> must exist, have
  \<^verbatim>\<open>items\<close>, and each of its values must have \<^verbatim>\<open>seek\<close>; \<open>rewind\<close> moves every
  file object to offset 0.
\<close>

definition rewind :: "(string \<times> nat \<times> bytes) list \<Rightarrow> (nat \<Rightarrow> nat) \<Rightarrow> (nat \<Rightarrow> nat)" where
  "rewind fs st = fold (\<lambda>(file_name, a, bs) st. st(a := 0)) fs st"

definition seek_all :: "payload option \<Rightarrow> world \<Rightarrow> error + world" where
  "seek_all files w =
     (case files of
        None \<Rightarrow> Inl (KeyError ''files'')
      | Some (PFiles fs) \<Rightarrow> Inr (w\<lparr>store := rewind fs (store w)\<rparr>)
      | Some (PJson (JObj [])) \<Rightarrow> Inr w
      | Some (PForm []) \<Rightarrow> Inr w
      | Some _ \<Rightarrow> Inl AttributeError)"

text \<open>The exception built at source lines 546-557 from the last response.\<close>

definition raise_request_exception ::
  "response \<Rightarrow> request_params \<Rightarrow> (string \<times> payload) list \<Rightarrow> error" where
  "raise_request_exception response request_params request_data =
     GetiRequestException (rp_method request_params) (rp_url request_params)
       (status_code response) request_data
       (case json_body response of None \<Rightarrow> JNull | Some response_data \<Rightarrow> response_data)"

text \<open>
  The one further attempt of source lines 533-557, taken when \<^verbatim>\<open>retry_request\<close> is
  set: the content type header is set again, the file objects of a multipart body are
  rewound, the request is sent once more, and an answer outside the success codes is
  raised as the request's failure.
\<close>

definition retry_once ::
  "request_params \<Rightarrow> (string \<times> payload) list \<Rightarrow> string \<Rightarrow> session \<Rightarrow> world \<Rightarrow>
   response result" where
  "retry_once request_params request_data content_type s w =
     (let s1 = update_headers_for_content_type content_type s
      in case (if content_type = ''multipart''
               then seek_all (rp_files request_params) w else Inr w) of
           Inl e \<Rightarrow> (Inl e, s1, w)
         | Inr w1 \<Rightarrow>
             (case request request_params s1 w1 of
                (Inl e, s2, w2) \<Rightarrow> (Inl e, s2, w2)
              | (Inr response, s2, w2) \<Rightarrow>
                  if status_code response \<in> set SUCCESS_STATUS_CODES
                  then (Inr response, s2, w2)
                  else (Inl (raise_request_exception response request_params request_data),
                        s2, w2)))"

text \<open>The errors raised at source lines 325-328 and 626-629.\<close>

definition unsupported_content :: "string \<Rightarrow> error" where
  "unsupported_content contenttype =
     ValueError (''Making a POST request with content of type '' @ contenttype @
                 '' is currently not supported through the Geti SDK.'')"

definition no_organization_id :: error where
  "no_organization_id =
     ValueError ''Unable to retrieve organization ID from the deployment profile.''"

definition csrf_header_methods :: "string list" where
  "csrf_header_methods = [''POST'', ''PUT'', ''DELETE'', ''PATCH'']"

text \<open>
  The response made up at source lines 360-362 when the connection was aborted: a fresh
  \<^verbatim>\<open>Response\<close> with status 401, no headers and no body.
\<close>

definition fake_response :: response where
  "fake_response =
     \<lparr>status_code = 401, resp_content_type = None, json_body = None, resp_url = [],
      next_url = None, resp_cookies = [], history = [], resp_method = [],
      resp_content = [], reason = []\<rparr>"

text \<open>
  \<^verbatim>\<open>get_rest_response\<close> (source lines 275-385), \<^verbatim>\<open>_handle_error_response\<close>
  (486-557), \<^verbatim>\<open>_acquire_access_token\<close> (131-153), the property
  \<^verbatim>\<open>organization_id\<close> (122-129), \<^verbatim>\<open>_get_organization_id\<close> (612-630) and the
  property \<^verbatim>\<open>base_url\<close> (576-585) call each other. The calls end because the
  organization id is fetched without an organization id in the URL, and the access token is
  fetched with re-authentication switched off.
\<close>

function
  get_rest_response ::
    "string \<Rightarrow> string \<Rightarrow> string \<Rightarrow> payload \<Rightarrow> bool \<Rightarrow> bool \<Rightarrow> bool \<Rightarrow>
     session \<Rightarrow> world \<Rightarrow> rest_result result"
and handle_error_response ::
    "response \<Rightarrow> request_params \<Rightarrow> (string \<times> payload) list \<Rightarrow> bool \<Rightarrow> string \<Rightarrow>
     session \<Rightarrow> world \<Rightarrow> response result"
and acquire_access_token :: "session \<Rightarrow> world \<Rightarrow> json result"
and organization_id :: "session \<Rightarrow> world \<Rightarrow> json result"
and get_organization_id :: "session \<Rightarrow> world \<Rightarrow> json result"
and base_url :: "session \<Rightarrow> world \<Rightarrow> string result"
where
  "get_rest_response url0 method contenttype data allow_reauthentication
       include_organization_id allow_text_response s w =
     (let url = (if prefix (api_pattern (cfg s)) url0
                 then drop (length (api_pattern (cfg s))) url0 else url0);
          s1 = update_headers_for_content_type contenttype s
      in case (if \<not> include_organization_id then (Inr (cfg_base_url (cfg s1) @ url), s1, w)
               else
                 (case organization_id s1 w of
                    (Inl e, s2, w2) \<Rightarrow> (Inl e, s2, w2)
                  | (Inr oid, s2, w2) \<Rightarrow>
                      if prefix (''organizations/'' @ py_str w2 oid @ ''/'') url
                      then (Inr (cfg_base_url (cfg s2) @ url), s2, w2)
                      else
                        (case base_url s2 w2 of
                           (Inl e, s3, w3) \<Rightarrow> (Inl e, s3, w3)
                         | (Inr b, s3, w3) \<Rightarrow> (Inr (b @ url), s3, w3)))) of
           (Inl e, s2, w2) \<Rightarrow> (Inl e, s2, w2)
         | (Inr requesturl, s2, w2) \<Rightarrow>
             (case (if method = ''POST'' \<or> method = ''PUT'' then
                      if contenttype = ''json'' then Inr [(''json'', data)]
                      else if contenttype = ''multipart'' then Inr [(''files'', data)]
                      else if contenttype = ''jpeg'' \<or> contenttype = ''zip'' then Inr [(''data'', data)]
                      else Inl (unsupported_content contenttype)
                    else Inr []) of
                Inl e \<Rightarrow> (Inl e, s2, w2)
              | Inr kw_data_arg \<Rightarrow>
                  (let request_params =
                         (params method requesturl)
                           \<lparr>rp_json := map_of kw_data_arg ''json'',
                            rp_files := map_of kw_data_arg ''files'',
                            rp_data := map_of kw_data_arg ''data'',
                            rp_stream := Some True\<rparr>;
                       request_params =
                         (if \<not> use_token s2
                          then request_params\<lparr>rp_cookies := Some (priv_cookies s2)\<rparr>
                          else request_params);
                       s3 = (if method \<in> set csrf_header_methods
                             then s2\<lparr>headers :=
                                    AList.update ''x-geti-csrf-protection'' (JStr ''1'') (headers s2)\<rparr>
                             else s2\<lparr>headers := AList.delete ''x-geti-csrf-protection'' (headers s2)\<rparr>)
                   in case (case request request_params s3 w2 of
                              (Inl (SSLError msg), s4, w4) \<Rightarrow>
                                (Inl (SSLError (''Connection to Intel Geti server at '' @ host (cfg s4) @
                                        '' failed, the server address can be resolved but the SSL '' @
                                        ''certificate could not be verified. Full error description: '' @ msg)),
                                 s4, w4)
                            | (Inl (ConnectionError args), s4, w4) \<Rightarrow>
                                if args \<noteq> [] \<and> hd args = ''Connection aborted.''
                                then (Inr fake_response, s4, w4)
                                else (Inl (if args = [] then IndexError else ConnectionError args), s4, w4)
                            | (Inl e, s4, w4) \<Rightarrow> (Inl e, s4, w4)
                            | (Inr response, s4, w4) \<Rightarrow> (Inr response, s4, w4)) of
                        (Inl e, s4, w4) \<Rightarrow> (Inl e, s4, w4)
                      | (Inr response, s4, w4) \<Rightarrow>
                          (let html = (case resp_content_type response of
                                         None \<Rightarrow> False
                                       | Some response_content_type \<Rightarrow>
                                           str_in ''text/html'' response_content_type)
                           in case (if (status_code response \<notin> set SUCCESS_STATUS_CODES \<or> html)
                                       \<and> \<not> (html \<and> allow_text_response)
                                    then handle_error_response response request_params kw_data_arg
                                           allow_reauthentication contenttype s4 w4
                                    else (Inr response, s4, w4)) of
                                (Inl e, s5, w5) \<Rightarrow> (Inl e, s5, w5)
                              | (Inr response, s5, w5) \<Rightarrow>
                                  if prefix ''application/json''
                                       (case resp_content_type response of None \<Rightarrow> [] | Some c \<Rightarrow> c)
                                  then (case json_body response of
                                          None \<Rightarrow> (Inl JSONDecodeError, s5, w5)
                                        | Some result \<Rightarrow> (Inr (RJson result), s5, w5))
                                  else (Inr (RResponse response), s5, w5)))))"
| "handle_error_response response request_params request_data allow_reauthentication
       content_type s w =
     (case (if status_code response \<in> set [200, 401] \<and> allow_reauthentication then
              (let w1 = log (Info ''Authentication may have expired, re-authenticating...'') w;
                   s1 = s\<lparr>logged_in := False\<rparr>
               in if \<not> use_token s1 then
                    (case authenticate False s1 w1 of
                       (Inl e, s2, w2) \<Rightarrow> (Inl e, s2, w2)
                     | (Inr _, s2, w2) \<Rightarrow>
                         (Inr True, s2, log (Info ''Authentication complete.'') w2))
                  else
                    (case acquire_access_token s1 w1 of
                       (Inl e, s2, w2) \<Rightarrow> (Inl e, s2, w2)
                     | (Inr access_token, s2, w2) \<Rightarrow>
                         (Inr True,
                          s2\<lparr>headers := AList.update ''Authorization''
                                (JStr (''Bearer '' @ py_str w2 access_token)) (headers s2)\<rparr>,
                          log (Info ''New bearer token obtained.'') w2)))
            else if status_code response = 503 then
              (Inr True, s, w\<lparr>trace := trace w @ [Sleep 1]\<rparr>)
            else (Inr False, s, w)) of
        (Inl e, s2, w2) \<Rightarrow> (Inl e, s2, w2)
      | (Inr retry_request, s2, w2) \<Rightarrow>
          if retry_request
          then retry_once request_params request_data content_type s2 w2
          else (Inl (raise_request_exception response request_params request_data), s2, w2))"
| "acquire_access_token s w =
     (case token (auth (cfg s)) of
        Inl e \<Rightarrow> (Inl e, s, w)
      | Inr t \<Rightarrow>
          (case get_rest_response ''service_accounts/access_token'' ''POST'' ''json''
                  (PJson (JObj [(''service_id'', JStr t)])) False False False s w of
             (Inl (GetiRequestException m u sc rd rsd), s1, w1) \<Rightarrow>
               if sc = 401
               then (Inl (ValueError (''Token authorization failed. Please make sure to provide a valid '' @
                                      ''Personal Access Token.'')), s1, w1)
               else (Inl (GetiRequestException m u sc rd rsd), s1, w1)
           | (Inl e, s1, w1) \<Rightarrow> (Inl e, s1, w1)
           | (Inr response, s1, w1) \<Rightarrow>
               (let w2 = log (Info (''Personal access token validated on host '' @ host (cfg s1))) w1
                in case rest_get response ''access_token'' of
                     Inl e \<Rightarrow> (Inl e, s1, w2)
                   | Inr access_token \<Rightarrow> (Inr access_token, s1, w2))))"
| "organization_id s w =
     (if priv_organization_id s = JNull then
        (case get_organization_id s w of
           (Inl e, s1, w1) \<Rightarrow> (Inl e, s1, w1)
         | (Inr oid, s1, w1) \<Rightarrow> (Inr oid, s1\<lparr>priv_organization_id := oid\<rparr>, w1))
      else (Inr (priv_organization_id s), s, w))"
| "get_organization_id s w =
     (let default_org_id = ''000000000000000000000001''
      in case version s w of
           Inl e \<Rightarrow> (Inl e, s, w)
         | Inr v \<Rightarrow>
             (case (if v < GETI_114_VERSION w then (Inr (JStr default_org_id), s, w)
                    else
                      (case get_rest_response ''profile'' ''GET'' ''json'' PNone True False False s w of
                         (Inl e, s1, w1) \<Rightarrow> (Inl e, s1, w1)
                       | (Inr result, s1, w1) \<Rightarrow>
                           (case rest_get result ''organizationId'' of
                              Inl e \<Rightarrow> (Inl e, s1, w1)
                            | Inr org_id \<Rightarrow> (Inr org_id, s1, w1)))) of
                (Inl e, s1, w1) \<Rightarrow> (Inl e, s1, w1)
              | (Inr org_id, s1, w1) \<Rightarrow>
                  if org_id = JNull
                  then (Inl no_organization_id, s1, w1)
                  else (Inr org_id, s1, w1)))"
| "base_url s w =
     (case version s w of
        Inl e \<Rightarrow> (Inl e, s, w)
      | Inr v \<Rightarrow>
          if v \<le> GETI_18_VERSION w then (Inr (cfg_base_url (cfg s)), s, w)
          else
            (case organization_id s w of
               (Inl e, s1, w1) \<Rightarrow> (Inl e, s1, w1)
             | (Inr oid, s1, w1) \<Rightarrow>
                 (Inr (cfg_base_url (cfg s1) @ ''organizations/'' @ py_str w1 oid @ ''/''), s1, w1)))"
  by pat_completeness auto
termination
  by (relation "measure (\<lambda>x. case x of
         Inl (Inl (url0, method, contenttype, data, allow, incl, rest)) \<Rightarrow>
           if incl then 8 else if allow then 4 else 1
       | Inl (Inr (Inl (response, request_params, request_data, allow, rest))) \<Rightarrow>
           if allow then 3 else 0
       | Inl (Inr (Inr _)) \<Rightarrow> 2
       | Inr (Inl _) \<Rightarrow> 6
       | Inr (Inr (Inl _)) \<Rightarrow> 5
       | Inr (Inr (Inr _)) \<Rightarrow> 7)") auto

declare follow_login_redirects.simps [simp del]
declare get_rest_response.simps [simp del]
declare handle_error_response.simps [simp del]
declare acquire_access_token.simps [simp del]
declare organization_id.simps [simp del]
declare get_organization_id.simps [simp del]
declare base_url.simps [simp del]


subsection \<open>Leaving the session\<close>

text \<open>\<^verbatim>\<open>s[:-n]\<close> on a string: for \<open>n = 0\<close> the slice is empty.\<close>

definition drop_last :: "nat \<Rightarrow> string \<Rightarrow> string" where
  "drop_last n xs = (if n = 0 then [] else take (length xs - n) xs)"

text \<open>\<^verbatim>\<open>close\<close> of \<^verbatim>\<open>requests.Session\<close>: the adapters are closed.\<close>

definition close :: "session \<Rightarrow> world \<Rightarrow> unit result" where
  "close s w =
     (let w1 = w\<lparr>trace := trace w @ [Close]\<rparr>
      in case close_result w of
           None \<Rightarrow> (Inr (), s\<lparr>closed := True\<rparr>, w1)
         | Some e \<Rightarrow> (Inl e, s, w1))"

fun is_GetiRequestException :: "error \<Rightarrow> bool" where
  "is_GetiRequestException (GetiRequestException m u sc rd rsd) = True"
| "is_GetiRequestException _ = False"

text \<open>
  The handlers around the sign-out call (source lines 419-427), given the exception and
  the current value of \<^verbatim>\<open>requires_closing\<close>; the result is the new value of
  \<^verbatim>\<open>requires_closing\<close>, or the exception when no handler matches.
\<close>

definition sign_out_handlers ::
  "error \<Rightarrow> bool \<Rightarrow> bool \<Rightarrow> session \<Rightarrow> world \<Rightarrow> bool result" where
  "sign_out_handlers e verbose requires_closing s w =
     (if is_RequestException e \<or> e = AttributeError \<or>
         (is_GetiRequestException e \<and> geti_exception_is_request_exception w)
      then (Inr requires_closing, s,
            if verbose
            then log (Info (''The GetiSession is closed successfully, but '' @
                            ''the Geti instance was not able to logout from the server.'')) w
            else w)
      else if e = TypeError then (Inr False, s, w)
      else (Inl e, s, w))"

text \<open>\<^verbatim>\<open>logout\<close> (source lines 387-440).\<close>

definition logout :: "bool \<Rightarrow> session \<Rightarrow> world \<Rightarrow> unit result" where
  "logout verbose s w =
     (let requires_closing = \<not> (\<not> logged_in s \<or> use_token s);
          requires_sign_out = \<not> (\<not> logged_in s \<or> use_token s)
      in case (if requires_sign_out then
                 (let sign_out_url =
                        drop_last (length (api_pattern (cfg s))) (cfg_base_url (cfg s)) @
                        ''/oauth2/sign_out''
                  in case request (params ''GET'' sign_out_url) s w of
                       (Inl e, s1, w1) \<Rightarrow> sign_out_handlers e verbose requires_closing s1 w1
                     | (Inr response, s1, w1) \<Rightarrow>
                         if status_code response \<in> set SUCCESS_STATUS_CODES
                         then (Inr requires_closing, s1,
                               if verbose then log (Info ''Logout successful.'') w1 else w1)
                         else sign_out_handlers
                                (GetiRequestException ''GET'' sign_out_url (status_code response) [] JNull)
                                verbose requires_closing s1 w1)
               else (Inr requires_closing, s, w)) of
           (Inl e, s1, w1) \<Rightarrow> (Inl e, s1, w1)
         | (Inr requires_closing, s1, w1) \<Rightarrow>
             (let s2 = s1\<lparr>priv_cookies := [], cookies := [], headers := INITIAL_HEADERS,
                        logged_in := False\<rparr>
              in if requires_closing then
                   (case close s2 w1 of
                      (Inl TypeError, s3, w3) \<Rightarrow>
                        (Inr (), s3, log (DebugExc TypeError '' encountered during GetiSession closure.'') w3)
                    | (Inl e, s3, w3) \<Rightarrow> (Inl e, s3, w3)
                    | (Inr _, s3, w3) \<Rightarrow> (Inr (), s3, w3))
                 else (Inr (), s2, w1)))"

text \<open>
  \<^verbatim>\<open>__exit__\<close> (source lines 462-473); \<^verbatim>\<open>__exit__\<close> of \<^verbatim>\<open>requests.Session\<close>
  closes the session.
\<close>

definition exit_session :: "session \<Rightarrow> world \<Rightarrow> unit result" where
  "exit_session s w =
     (let (s1, w1) =
            (if logged_in s then
               (case logout False s w of
                  (Inl exc, s1, w1) \<Rightarrow>
                    (s1, log (DebugExc exc '' encountered while exiting GetiSession context.'') w1)
                | (Inr _, s1, w1) \<Rightarrow> (s1, w1))
             else (s, w))
      in close s1 w1)"



section \<open>Concrete sessions and servers\<close>

text \<open>
  The values at which the theorems below are instantiated: a server that answers the
  \<open>k\<close>-th request with the \<open>k\<close>-th entry of a script and is unreachable afterwards, a
  credential session against it, and a world with Python's \<^verbatim>\<open>str\<close> on strings,
  \<^verbatim>\<open>None\<close> and the status codes.
\<close>

fun is_Request :: "event \<Rightarrow> bool" where
  "is_Request (Request rp h parts) = True"
| "is_Request _ = False"

definition scripted :: "outcome list \<Rightarrow> event list \<Rightarrow> outcome" where
  "scripted answers tr =
     (let k = length (filter is_Request tr)
      in if 0 < k \<and> k \<le> length answers then answers ! (k - 1)
         else Raises (RequestsConnectionError ''unreachable''))"

text \<open>Decimal digits of a number below 1000.\<close>

definition show_nat :: "nat \<Rightarrow> string" where
  "show_nat n =
     (if n < 10 then [''0123456789'' ! n]
      else if n < 100 then [''0123456789'' ! (n div 10), ''0123456789'' ! (n mod 10)]
      else [''0123456789'' ! (n div 100 mod 10), ''0123456789'' ! (n div 10 mod 10),
            ''0123456789'' ! (n mod 10)])"

definition test_config :: config where
  "test_config =
     \<lparr>host = ''https://geti'', api_pattern = ''/api/v1/'',
      cfg_base_url = ''https://geti/api/v1/'', auth = Credentials ''user'' ''secret''\<rparr>"

definition test_session :: session where
  "test_session =
     \<lparr>headers = INITIAL_HEADERS, cookies = [],
      priv_cookies = [(CSRF_COOKIE_NAME, JNull), (PROXY_COOKIE_NAME, JNull)],
      logged_in = False, priv_auth_service = None, use_token = False, cfg = test_config,
      priv_product_info = [(''product-version'', JStr ''1.5.0'')],
      priv_organization_id = JStr ''000000000000000000000001'', closed = False\<rparr>"

definition test_world :: "outcome list \<Rightarrow> world" where
  "test_world answers =
     \<lparr>net = scripted answers, trace = [], logs = [],
      store = (\<lambda>a. 0),
      py_str = (\<lambda>v. case v of JStr x \<Rightarrow> x | JNum n \<Rightarrow> show_nat (nat n) | _ \<Rightarrow> ''None''),
      close_result = None, recursion_limit = 1000,
      GetiVersion = (\<lambda>v. if v = JStr ''1.5.0'' then Inr (1, 5, 0)
                         else if v = JStr ''2.0.0'' then Inr (2, 0, 0)
                         else Inl (ValueError ''version'')),
      GETI_18_VERSION = (1, 8, 0), GETI_114_VERSION = (1, 14, 0),
      geti_exception_is_request_exception = False\<rparr>"

definition answer :: "nat \<Rightarrow> string option \<Rightarrow> json option \<Rightarrow> response" where
  "answer code ctype body =
     \<lparr>status_code = code, resp_content_type = ctype, json_body = body, resp_url = [],
      next_url = None, resp_cookies = [], history = [], resp_method = [],
      resp_content = [], reason = []\<rparr>"

text \<open>The request for the deployment descriptor, as it appears in the trace.\<close>

definition descriptor_request :: "session \<Rightarrow> event" where
  "descriptor_request s =
     Request (params ''GET'' (host (cfg s) @ ''/deployment-config.json'')) (headers s) []"

text \<open>The request for the profile, as it appears in the trace.\<close>

definition profile_request :: "session \<Rightarrow> event" where
  "profile_request s =
     Request
       ((params ''GET''
           (cfg_base_url (cfg s) @
            (if prefix (api_pattern (cfg s)) ''profile''
             then drop (length (api_pattern (cfg s))) ''profile'' else ''profile'')))
          \<lparr>rp_stream := Some True,
           rp_cookies := (if use_token s then None else Some (priv_cookies s))\<rparr>)
       (AList.delete ''x-geti-csrf-protection''
          (AList.update ''Content-Type'' (JStr ''application/json'') (headers s)))
       []"

text \<open>The method and URL of each request of a trace.\<close>

fun requested :: "event list \<Rightarrow> (string \<times> string) list" where
  "requested [] = []"
| "requested (Request rp h parts # es) = (rp_method rp, rp_url rp) # requested es"
| "requested (e # es) = requested es"

definition ok_json :: response where
  "ok_json = answer 200 (Some ''application/json'') (Some (JObj []))"

text \<open>
  A session whose backend is known to be the legacy login, the pages of that login, an
  answer that says the session has expired, and a token session with the answer that
  grants its token.
\<close>

definition legacy_session :: session where
  "legacy_session = test_session\<lparr>priv_auth_service := Some AUTHENTICATION_DEX_OLD\<rparr>"

definition login_page :: response where
  "login_page =
     (answer 200 (Some ''text/html'') None)\<lparr>resp_url := ''https://geti/dex/auth/local''\<rparr>"

definition login_rejected :: response where
  "login_rejected =
     (answer 200 (Some ''text/html'') None)
       \<lparr>resp_url := ''https://geti/dex/auth/local'', history := [[(''session'', ''1'')]]\<rparr>"

definition login_accepted :: response where
  "login_accepted =
     (answer 200 (Some ''text/html'') None)
       \<lparr>resp_url := ''https://geti/'', history := [[(''_oauth2_proxy'', ''c1'')]]\<rparr>"

definition unauthorized :: response where
  "unauthorized = answer 401 (Some ''application/json'') (Some (JObj []))"

definition token_session :: session where
  "token_session =
     test_session\<lparr>use_token := True, cfg := test_config\<lparr>auth := Token ''pat''\<rparr>,
                   priv_cookies := []\<rparr>"

definition token_granted :: response where
  "token_granted =
     answer 200 (Some ''application/json'') (Some (JObj [(''access_token'', JStr ''t1'')]))"

text \<open>
  Method and URL of each request of a trace, and whether it goes out with the header
  \<open>x-geti-csrf-protection\<close>, which may come from the session headers or from the
  headers given with the request.
\<close>

fun carries_csrf :: "event list \<Rightarrow> (string \<times> string \<times> bool) list" where
  "carries_csrf [] = []"
| "carries_csrf (Request rp h parts # es) =
     (rp_method rp, rp_url rp,
      map_of h ''x-geti-csrf-protection'' \<noteq> None \<or>
      (case rp_headers rp of
         None \<Rightarrow> False
       | Some hs \<Rightarrow> map_of hs ''x-geti-csrf-protection'' \<noteq> None)) # carries_csrf es"
| "carries_csrf (e # es) = carries_csrf es"





definition rewound :: "string \<Rightarrow> request_params \<Rightarrow> world \<Rightarrow> world" where
  "rewound content_type rp w =
     (if content_type = ''multipart''
      then (case seek_all (rp_files rp) w of Inl e \<Rightarrow> w | Inr w1 \<Rightarrow> w1)
      else w)"






section \<open>Properties\<close>

subsection \<open>The transport\<close>

lemma request_returns:
  "net w (trace w @ [Request rp (headers s) (fst (send_parts (rp_files rp) (store w)))]) = Returns r \<Longrightarrow>
   request rp s w =
     (Inr r, s\<lparr>cookies := dict_update (cookies s) (concat (history r) @ resp_cookies r)\<rparr>,
      w\<lparr>trace := trace w @ [Request rp (headers s) (fst (send_parts (rp_files rp) (store w)))],
        store := snd (send_parts (rp_files rp) (store w))\<rparr>)"
  by (simp add: request_def Let_def split_beta)

lemma request_raises:
  "net w (trace w @ [Request rp (headers s) (fst (send_parts (rp_files rp) (store w)))]) = Raises e \<Longrightarrow>
   request rp s w =
     (Inl e, s,
      w\<lparr>trace := trace w @ [Request rp (headers s) (fst (send_parts (rp_files rp) (store w)))],
        store := snd (send_parts (rp_files rp) (store w))\<rparr>)"
  by (simp add: request_def Let_def split_beta)

lemma send_parts_params [simp]: "send_parts (rp_files (params m u)) st = ([], st)"
  by (simp add: send_parts_def params_def)

subsection \<open>Authentication is skipped when logged in\<close>

text \<open>
  Claim C7. Calling \<^verbatim>\<open>authenticate\<close> on a session that is logged in returns without
  error and leaves the session as it was; the world differs by one log line only, so no
  request is sent.
\<close>

theorem authenticate_when_logged_in:
  "logged_in s \<Longrightarrow>
   authenticate verbose s w =
     (Inr (), s, w\<lparr>logs := logs w @ [Info ''Already logged in, authentication is skipped'']\<rparr>)"
  by (simp add: authenticate_def log_def)

theorem authenticate_when_logged_in_witness:
  "authenticate True (test_session\<lparr>logged_in := True\<rparr>) (test_world []) =
     (Inr (), test_session\<lparr>logged_in := True\<rparr>,
      (test_world [])\<lparr>logs := [Info ''Already logged in, authentication is skipped'']\<rparr>)
   \<and> trace ((test_world [])\<lparr>logs := [Info ''Already logged in, authentication is skipped'']\<rparr>) = []"
  using authenticate_when_logged_in [of "test_session\<lparr>logged_in := True\<rparr>" True "test_world []"]
  by (simp add: test_session_def test_world_def)

subsection \<open>Negotiating the authentication backend\<close>

text \<open>
  Claim C3, as the code has it. A cached backend is returned without a request. Otherwise
  the answer to the descriptor request decides: a body that does not decode gives the
  legacy backend \<open>dex-old\<close>; an object without an \<open>auth\<close> entry gives \<open>dex-new\<close>, since
  the entry defaults to type \<open>dex\<close>; an \<open>auth\<close> object of type \<open>dex\<close> gives \<open>dex-new\<close>;
  an \<open>auth\<close> object with any other type, or with none, gives \<open>cidaas\<close>; a document or an
  \<open>auth\<close> entry that is not an object raises. A backend that was resolved is cached.
\<close>

theorem authentication_service_resolution:
  "(priv_auth_service s = Some a \<longrightarrow> authentication_service s w = (Inr a, s, w)) \<and>
   (priv_auth_service s = None \<and> net w (trace w @ [descriptor_request s]) = Returns r \<longrightarrow>
      fst (authentication_service s w) =
        (case json_body r of
           None \<Rightarrow> Inr AUTHENTICATION_DEX_OLD
         | Some (JObj d) \<Rightarrow>
             (case map_of d ''auth'' of
                None \<Rightarrow> Inr AUTHENTICATION_DEX_NEW
              | Some (JObj a) \<Rightarrow>
                  if map_of a ''type'' = Some (JStr ''dex'')
                  then Inr AUTHENTICATION_DEX_NEW else Inr AUTHENTICATION_CIDAAS
              | Some _ \<Rightarrow> Inl AttributeError)
         | Some _ \<Rightarrow> Inl AttributeError) \<and>
      (\<forall>b. fst (authentication_service s w) = Inr b \<longrightarrow>
           priv_auth_service (fst (snd (authentication_service s w))) = Some b))"
proof (intro conjI impI)
  assume "priv_auth_service s = Some a"
  then show "authentication_service s w = (Inr a, s, w)"
    by (simp add: authentication_service_def)
next
  assume "priv_auth_service s = None \<and> net w (trace w @ [descriptor_request s]) = Returns r"
  then show "fst (authentication_service s w) =
        (case json_body r of
           None \<Rightarrow> Inr AUTHENTICATION_DEX_OLD
         | Some (JObj d) \<Rightarrow>
             (case map_of d ''auth'' of
                None \<Rightarrow> Inr AUTHENTICATION_DEX_NEW
              | Some (JObj a) \<Rightarrow>
                  if map_of a ''type'' = Some (JStr ''dex'')
                  then Inr AUTHENTICATION_DEX_NEW else Inr AUTHENTICATION_CIDAAS
              | Some _ \<Rightarrow> Inl AttributeError)
         | Some _ \<Rightarrow> Inl AttributeError)"
    by (simp add: authentication_service_def descriptor_request_def request_returns dict_get_def
          split: option.splits json.splits)
next
  assume "priv_auth_service s = None \<and> net w (trace w @ [descriptor_request s]) = Returns r"
  then show "\<forall>b. fst (authentication_service s w) = Inr b \<longrightarrow>
           priv_auth_service (fst (snd (authentication_service s w))) = Some b"
    by (simp add: authentication_service_def descriptor_request_def request_returns dict_get_def
          split: option.splits json.splits sum.splits)
qed

theorem authentication_service_resolution_witness:
  "authentication_service (test_session\<lparr>priv_auth_service := Some AUTHENTICATION_CIDAAS\<rparr>)
     (test_world []) =
     (Inr AUTHENTICATION_CIDAAS, test_session\<lparr>priv_auth_service := Some AUTHENTICATION_CIDAAS\<rparr>,
      test_world [])
   \<and> fst (authentication_service test_session
            (test_world [Returns (answer 200 (Some ''application/json'')
                                    (Some (JObj [(''auth'', JObj [(''type'', JStr ''oidc'')])])))]))
       = Inr AUTHENTICATION_CIDAAS"
  using authentication_service_resolution
          [of "test_session\<lparr>priv_auth_service := Some AUTHENTICATION_CIDAAS\<rparr>"
              AUTHENTICATION_CIDAAS "test_world []"]
        authentication_service_resolution
          [of test_session _
              "test_world [Returns (answer 200 (Some ''application/json'')
                                      (Some (JObj [(''auth'', JObj [(''type'', JStr ''oidc'')])])))]"
              "answer 200 (Some ''application/json'')
                 (Some (JObj [(''auth'', JObj [(''type'', JStr ''oidc'')])]))"]
  by (simp add: test_session_def test_world_def descriptor_request_def scripted_def answer_def)

text \<open>
  The claim as stated fails for a descriptor without an \<open>auth\<close> entry: it is resolved to
  \<open>dex-new\<close>, not to the legacy backend.
\<close>

theorem authentication_service_counterexample:
  "fst (authentication_service test_session
          (test_world [Returns (answer 200 (Some ''application/json'') (Some (JObj [])))]))
     = Inr AUTHENTICATION_DEX_NEW
   \<and> AUTHENTICATION_DEX_NEW \<noteq> AUTHENTICATION_DEX_OLD"
  by (simp add: authentication_service_def request_def test_session_def test_world_def
        test_config_def scripted_def answer_def Let_def INITIAL_HEADERS_def
        AUTHENTICATION_DEX_NEW_def AUTHENTICATION_DEX_OLD_def dict_get_def)


subsection \<open>Evaluating the dispatcher\<close>

lemmas eval_defs =
  test_session_def test_world_def test_config_def update_headers_for_content_type_def
  dict_get_def cookie_get_def dict_update_def params_def request_def send_parts_def
  scripted_def ok_json_def answer_def csrf_header_methods_def SUCCESS_STATUS_CODES_def
  Let_def INITIAL_HEADERS_def version_def log_def
  CSRF_COOKIE_NAME_def PROXY_COOKIE_NAME_def GETI_COOKIE_NAME_def
  AUTHENTICATION_DEX_OLD_def AUTHENTICATION_DEX_NEW_def AUTHENTICATION_CIDAAS_def

lemmas call_simps =
  get_rest_response.simps handle_error_response.simps acquire_access_token.simps
  organization_id.simps get_organization_id.simps base_url.simps

lemma update_headers_fields [simp]:
  "priv_organization_id (update_headers_for_content_type c s) = priv_organization_id s"
  "priv_product_info (update_headers_for_content_type c s) = priv_product_info s"
  "cfg (update_headers_for_content_type c s) = cfg s"
  "use_token (update_headers_for_content_type c s) = use_token s"
  "logged_in (update_headers_for_content_type c s) = logged_in s"
  "priv_cookies (update_headers_for_content_type c s) = priv_cookies s"
  "cookies (update_headers_for_content_type c s) = cookies s"
  by (simp_all add: update_headers_for_content_type_def)

lemma version_update_headers [simp]:
  "version (update_headers_for_content_type c s) w = version s w"
  by (simp add: version_def)

lemma send_parts_None [simp]: "send_parts None st = ([], st)"
  by (simp add: send_parts_def)

lemma profile_answered:
  assumes "net w (trace w @ [profile_request s]) = Returns r"
      and "status_code r \<in> set SUCCESS_STATUS_CODES"
      and "resp_content_type r = Some ''application/json''"
      and "json_body r = Some j"
  shows "get_rest_response ''profile'' ''GET'' ''json'' PNone True False False s w =
           (Inr (RJson j),
            s\<lparr>headers := AList.delete ''x-geti-csrf-protection''
                  (AList.update ''Content-Type'' (JStr ''application/json'') (headers s)),
              cookies := dict_update (cookies s) (concat (history r) @ resp_cookies r)\<rparr>,
            w\<lparr>trace := trace w @ [profile_request s]\<rparr>)"
  using assms
  by (cases "use_token s"; cases "prefix (api_pattern (cfg s)) ''profile''")
     (simp_all add: get_rest_response.simps profile_request_def request_def Let_def
        update_headers_for_content_type_def csrf_header_methods_def params_def send_parts_def)


subsection \<open>The API prefix of a relative URL\<close>

text \<open>
  Claim C10, as the code has it. The API pattern is stripped from the front of the URL
  once. When what is left does not begin with the pattern again, passing the URL with the
  prefix and passing it without give the same result, session and world, hence the same
  requests.
\<close>

theorem get_rest_response_strips_prefix_once:
  "prefix (api_pattern (cfg s)) url \<Longrightarrow>
   \<not> prefix (api_pattern (cfg s)) (drop (length (api_pattern (cfg s))) url) \<Longrightarrow>
   get_rest_response url method contenttype data allow_reauthentication
     include_organization_id allow_text_response s w =
   get_rest_response (drop (length (api_pattern (cfg s))) url) method contenttype data
     allow_reauthentication include_organization_id allow_text_response s w"
  by (simp add: get_rest_response.simps [of url]
        get_rest_response.simps [of "drop (length (api_pattern (cfg s))) url"])

theorem get_rest_response_strips_prefix_once_witness:
  "get_rest_response ''/api/v1/x'' ''GET'' ''json'' PNone True True False
     (test_session\<lparr>logged_in := True\<rparr>) (test_world [Returns ok_json]) =
   get_rest_response ''x'' ''GET'' ''json'' PNone True True False
     (test_session\<lparr>logged_in := True\<rparr>) (test_world [Returns ok_json])
   \<and> requested (trace (snd (snd (get_rest_response ''x'' ''GET'' ''json'' PNone True True False
        (test_session\<lparr>logged_in := True\<rparr>) (test_world [Returns ok_json]))))) =
       [(''GET'', ''https://geti/api/v1/x'')]"
  using get_rest_response_strips_prefix_once
          [of "test_session\<lparr>logged_in := True\<rparr>" "''/api/v1/x''" "''GET''" "''json''" PNone True
              True False "test_world [Returns ok_json]"]
  by (simp add: call_simps eval_defs)

text \<open>
  The claim as stated fails when the URL carries the pattern twice: the call with the full
  URL requests a path that still has one pattern in it, the call with the stripped URL
  strips again and requests another path.
\<close>

theorem get_rest_response_prefix_counterexample:
  "prefix (api_pattern (cfg test_session)) ''/api/v1//api/v1/x''
   \<and> requested (trace (snd (snd (get_rest_response ''/api/v1//api/v1/x'' ''GET'' ''json'' PNone
         True True False (test_session\<lparr>logged_in := True\<rparr>) (test_world [Returns ok_json]))))) =
       [(''GET'', ''https://geti/api/v1//api/v1/x'')]
   \<and> requested (trace (snd (snd (get_rest_response
         (drop (length (api_pattern (cfg test_session))) ''/api/v1//api/v1/x'') ''GET'' ''json'' PNone
         True True False (test_session\<lparr>logged_in := True\<rparr>) (test_world [Returns ok_json]))))) =
       [(''GET'', ''https://geti/api/v1/x'')]"
  by (simp add: call_simps eval_defs)


subsection \<open>Unsupported content kinds\<close>

text \<open>
  Claim C9, as the code has it. A \<open>POST\<close> or \<open>PUT\<close> whose content kind is none of
  \<open>json\<close>, \<open>multipart\<close>, \<open>jpeg\<close> and \<open>zip\<close> raises \<open>ValueError\<close> and leaves the
  world as it was: nothing is sent. This is for a call that needs no organization id, or a
  session whose organization id is set and whose version is readable, as they are once the
  session is constructed.
\<close>

theorem unsupported_content_kind_raises:
  assumes "method = ''POST'' \<or> method = ''PUT''"
      and "contenttype \<notin> set [''json'', ''multipart'', ''jpeg'', ''zip'']"
      and "\<not> include_organization_id \<or> (priv_organization_id s \<noteq> JNull \<and> version s w = Inr v)"
  shows "get_rest_response url method contenttype data allow_reauthentication
           include_organization_id allow_text_response s w =
         (Inl (unsupported_content contenttype), update_headers_for_content_type contenttype s, w)"
  using assms
  by (auto simp add: get_rest_response.simps organization_id.simps base_url.simps
        unsupported_content_def Let_def)

theorem unsupported_content_kind_raises_witness:
  "get_rest_response ''projects'' ''POST'' ''xml'' PNone True True False
     (test_session\<lparr>logged_in := True\<rparr>) (test_world []) =
   (Inl (unsupported_content ''xml''), test_session\<lparr>logged_in := True\<rparr>, test_world [])"
  using unsupported_content_kind_raises
          [of "''POST''" "''xml''" True "test_session\<lparr>logged_in := True\<rparr>" "test_world []"
              "(1, 5, 0)" "''projects''" PNone True False]
  by (simp add: eval_defs)

text \<open>
  The claim as stated fails for \<open>DELETE\<close> (and \<open>PATCH\<close>): the content kind is not looked
  at, and the request is sent.
\<close>

theorem unsupported_content_kind_counterexample:
  "''DELETE'' \<in> set csrf_header_methods
   \<and> ''xml'' \<notin> set [''json'', ''multipart'', ''jpeg'', ''zip'']
   \<and> fst (get_rest_response ''projects/1'' ''DELETE'' ''xml'' PNone True True False
        (test_session\<lparr>logged_in := True\<rparr>) (test_world [Returns ok_json])) = Inr (RJson (JObj []))
   \<and> requested (trace (snd (snd (get_rest_response ''projects/1'' ''DELETE'' ''xml'' PNone True True
        False (test_session\<lparr>logged_in := True\<rparr>) (test_world [Returns ok_json]))))) =
       [(''DELETE'', ''https://geti/api/v1/projects/1'')]"
  by (simp add: call_simps eval_defs)


subsection \<open>The organization id\<close>

text \<open>
  Claim C6. Below \<open>GETI_114_VERSION\<close> the organization id is the constant
  \<open>000000000000000000000001\<close> and the world is left as it was, so no request is sent. At
  or above it the id is what \<^verbatim>\<open>get_rest_response\<close> of \<open>profile\<close> returns under
  \<open>organizationId\<close>; a failure of that call is passed on; an answer without the entry, or
  with a null entry, raises \<open>ValueError\<close>. When the server answers the profile request
  with a JSON object at once, that request is the only one sent.
\<close>

theorem organization_id_resolution:
  "(version s w = Inr v \<and> v < GETI_114_VERSION w \<longrightarrow>
      get_organization_id s w = (Inr (JStr ''000000000000000000000001''), s, w)) \<and>
   (version s w = Inr v \<and> \<not> v < GETI_114_VERSION w \<and>
    get_rest_response ''profile'' ''GET'' ''json'' PNone True False False s w = (Inl e, s1, w1) \<longrightarrow>
      get_organization_id s w = (Inl e, s1, w1)) \<and>
   (version s w = Inr v \<and> \<not> v < GETI_114_VERSION w \<and>
    get_rest_response ''profile'' ''GET'' ''json'' PNone True False False s w =
      (Inr (RJson (JObj d)), s1, w1) \<longrightarrow>
      get_organization_id s w =
        (case map_of d ''organizationId'' of
           None \<Rightarrow> (Inl no_organization_id, s1, w1)
         | Some oid \<Rightarrow>
             if oid = JNull then (Inl no_organization_id, s1, w1) else (Inr oid, s1, w1))) \<and>
   (version s w = Inr v \<and> \<not> v < GETI_114_VERSION w \<and>
    net w (trace w @ [profile_request s]) = Returns r \<and>
    status_code r \<in> set SUCCESS_STATUS_CODES \<and>
    resp_content_type r = Some ''application/json'' \<and> json_body r = Some (JObj d) \<longrightarrow>
      trace (snd (snd (get_organization_id s w))) = trace w @ [profile_request s] \<and>
      fst (get_organization_id s w) =
        (case map_of d ''organizationId'' of
           None \<Rightarrow> Inl no_organization_id
         | Some oid \<Rightarrow> if oid = JNull then Inl no_organization_id else Inr oid))"
proof (intro conjI impI)
  assume "version s w = Inr v \<and> v < GETI_114_VERSION w"
  then show "get_organization_id s w = (Inr (JStr ''000000000000000000000001''), s, w)"
    by (simp add: get_organization_id.simps)
next
  assume "version s w = Inr v \<and> \<not> v < GETI_114_VERSION w \<and>
    get_rest_response ''profile'' ''GET'' ''json'' PNone True False False s w = (Inl e, s1, w1)"
  then show "get_organization_id s w = (Inl e, s1, w1)"
    by (simp add: get_organization_id.simps)
next
  assume "version s w = Inr v \<and> \<not> v < GETI_114_VERSION w \<and>
    get_rest_response ''profile'' ''GET'' ''json'' PNone True False False s w =
      (Inr (RJson (JObj d)), s1, w1)"
  then show "get_organization_id s w =
        (case map_of d ''organizationId'' of
           None \<Rightarrow> (Inl no_organization_id, s1, w1)
         | Some oid \<Rightarrow>
             if oid = JNull then (Inl no_organization_id, s1, w1) else (Inr oid, s1, w1))"
    by (simp add: get_organization_id.simps dict_get_def no_organization_id_def
          split: option.splits)
next
  assume h: "version s w = Inr v \<and> \<not> v < GETI_114_VERSION w \<and>
    net w (trace w @ [profile_request s]) = Returns r \<and>
    status_code r \<in> set SUCCESS_STATUS_CODES \<and>
    resp_content_type r = Some ''application/json'' \<and> json_body r = Some (JObj d)"
  then have p: "get_rest_response ''profile'' ''GET'' ''json'' PNone True False False s w =
           (Inr (RJson (JObj d)),
            s\<lparr>headers := AList.delete ''x-geti-csrf-protection''
                  (AList.update ''Content-Type'' (JStr ''application/json'') (headers s)),
              cookies := dict_update (cookies s) (concat (history r) @ resp_cookies r)\<rparr>,
            w\<lparr>trace := trace w @ [profile_request s]\<rparr>)"
    by (intro profile_answered) simp_all
  from h p show "trace (snd (snd (get_organization_id s w))) = trace w @ [profile_request s]"
    by (simp add: get_organization_id.simps dict_get_def split: option.splits)
  from h p show "fst (get_organization_id s w) =
        (case map_of d ''organizationId'' of
           None \<Rightarrow> Inl no_organization_id
         | Some oid \<Rightarrow> if oid = JNull then Inl no_organization_id else Inr oid)"
    by (simp add: get_organization_id.simps dict_get_def no_organization_id_def
          split: option.splits)
qed


theorem organization_id_resolution_witness:
  "get_organization_id test_session (test_world []) =
     (Inr (JStr ''000000000000000000000001''), test_session, test_world [])
   \<and> fst (get_organization_id
            (test_session\<lparr>priv_product_info := [(''product-version'', JStr ''2.0.0'')]\<rparr>)
            (test_world [Returns ok_json])) = Inl no_organization_id
   \<and> requested (trace (snd (snd (get_organization_id
            (test_session\<lparr>priv_product_info := [(''product-version'', JStr ''2.0.0'')]\<rparr>)
            (test_world [Returns ok_json]))))) = [(''GET'', ''https://geti/api/v1/profile'')]"
  using organization_id_resolution
          [where s = test_session and w = "test_world []" and v = "(1, 5, 0)"]
        organization_id_resolution
          [where s = "test_session\<lparr>priv_product_info := [(''product-version'', JStr ''2.0.0'')]\<rparr>"
             and w = "test_world [Returns ok_json]" and v = "(2, 0, 0)" and d = "[]"
             and r = ok_json]
  by (simp add: eval_defs profile_request_def)


subsection \<open>The legacy login without the proxy cookie\<close>

lemma follow_login_redirects_final:
  "0 < depth \<Longrightarrow> status_code response \<notin> set [302, 303] \<Longrightarrow>
   follow_login_redirects depth response use_legacy_dex s w =
     (Inr (if use_legacy_dex then Some (resp_url response) else None), s, w)"
  by (cases depth) (simp_all add: follow_login_redirects.simps)

lemmas login_defs =
  authenticate_def authentication_service_def get_initial_login_url_def
  follow_login_redirects_final handle_legacy_dex_response_def request_to_def
  legacy_session_def login_page_def login_rejected_def login_accepted_def unauthorized_def
  token_session_def token_granted_def retry_once_def raise_request_exception_def

text \<open>
  Claim C2 fails on the code. Here the server answers the first request of the login with
  the login page and the submitted credentials with a page whose redirect history holds no
  \<open>_oauth2_proxy\<close> cookie. \<^verbatim>\<open>_handle_legacy_dex_response\<close> logs the warning that
  authentication appears to have failed and returns; \<^verbatim>\<open>authenticate\<close> then logs success,
  returns without error and leaves the session logged in, with no proxy cookie. An empty
  redirect history, by contrast, raises \<open>ValueError\<close>.
\<close>

theorem legacy_login_without_proxy_cookie:
  "fst (authenticate True legacy_session
          (test_world [Returns login_page, Returns login_rejected])) = Inr ()
   \<and> logged_in (fst (snd (authenticate True legacy_session
          (test_world [Returns login_page, Returns login_rejected]))))
   \<and> dict_get (priv_cookies (fst (snd (authenticate True legacy_session
          (test_world [Returns login_page, Returns login_rejected]))))) PROXY_COOKIE_NAME = JNull
   \<and> logs (snd (snd (authenticate True legacy_session
          (test_world [Returns login_page, Returns login_rejected])))) = 
     [Info ''Authenticating on host https://geti...'',
      Warning
       ''Authentication appears to have failed! No valid oauth cookie obtained. Invalid response received from server. Status code: 200'',
      Info ''Authentication successful. Cookie received.'']"
  by (simp add: login_defs eval_defs show_nat_def)


subsection \<open>The CSRF header on a retry\<close>

text \<open>
  Claim C5 fails on the code for the retried request. The header is kept in the session
  headers and set or removed when \<^verbatim>\<open>get_rest_response\<close> dispatches. A \<open>POST\<close> that is
  answered 401 on a credential session is retried after \<^verbatim>\<open>authenticate\<close> has cleared
  the session headers, and only the content type is set again: the retried \<open>POST\<close> goes
  out without the header (and the first request of the login, a \<open>GET\<close>, went out with
  it). A \<open>GET\<close> that is answered 401 on a token session is retried after the \<open>POST\<close>
  that fetches the new token has set the header: the retried \<open>GET\<close> carries it.
\<close>

theorem retry_after_login_lacks_csrf_header:
  "carries_csrf (trace (snd (snd (get_rest_response ''projects'' ''POST'' ''json''
       (PJson (JObj [(''name'', JStr ''p'')])) True True False
       (legacy_session\<lparr>logged_in := True\<rparr>)
       (test_world [Returns unauthorized, Returns login_page, Returns login_accepted,
                    Returns ok_json]))))) =
       [(''POST'', ''https://geti/api/v1/projects'', True),
        (''GET'', ''https://geti'', True),
        (''POST'', ''https://geti/dex/auth/local'', False),
        (''POST'', ''https://geti/api/v1/projects'', False)]
   \<and> fst (get_rest_response ''projects'' ''POST'' ''json''
       (PJson (JObj [(''name'', JStr ''p'')])) True True False
       (legacy_session\<lparr>logged_in := True\<rparr>)
       (test_world [Returns unauthorized, Returns login_page, Returns login_accepted,
                    Returns ok_json])) = Inr (RJson (JObj []))
   \<and> carries_csrf (trace (snd (snd (get_rest_response ''projects'' ''GET'' ''json'' PNone
       True True False token_session
       (test_world [Returns unauthorized, Returns token_granted, Returns ok_json]))))) =
       [(''GET'', ''https://geti/api/v1/projects'', False),
        (''POST'', ''https://geti/api/v1/service_accounts/access_token'', True),
        (''GET'', ''https://geti/api/v1/projects'', True)]"
  by (simp add: call_simps login_defs eval_defs)



subsection \<open>Logging out\<close>







subsection \<open>Recovering from an error response\<close>





lemma net_rewound [simp]: "net (rewound ct rp w) = net w"
  by (simp add: rewound_def seek_all_def
        split: option.splits payload.splits json.splits list.splits)

lemma trace_rewound [simp]: "trace (rewound ct rp w) = trace w"
  by (simp add: rewound_def seek_all_def
        split: option.splits payload.splits json.splits list.splits)









subsection \<open>Rewinding the files of a multipart retry\<close>












end
